theory Spec2Isabelle
  imports
    Complex_Main
    "HOL-Library.Char_ord"
    "HOL-Library.List_Lexorder"
    "HOL-Library.Product_Lexorder"
begin

section \<open>Invoice allocation pipeline of main1.py\<close>

text \<open>
  The development embeds \<^verbatim>\<open>src/main1.py\<close>: the header search over the uploaded
  spreadsheet, the extraction of the amount from the first page of the PDF, the grouping
  and proportional allocation, the binding to the template's columns, the UPC mapping, the
  quantity column, the padding to 100 rows and the upload handler around all of it.

  Conventions of the embedding.
  \<^item> A spreadsheet cell is blank (pandas reads it as NaN), a number or a text. Numbers are
    exact rationals: float64 arithmetic is idealised on finite values, and the three
    special values that a division by zero produces are kept apart in \<open>fval\<close>.
  \<^item> \<^verbatim>\<open>sort_values\<close> is modelled as a stable sort: rows with equal keys keep their
    order, in the descending sort as well (pandas reverses, sorts, and reverses the
    result). The default algorithm of pandas keeps that order on short columns only, so
    what is proved about the order of rows with equal keys is proved of this model.
  \<^item> Strings are strings of bytes: the classes of characters (digits, whitespace) are the
    ASCII ones.
  \<^item> What the files hold is the input of the model (\<open>job\<close>); a library call that raises
    on an unreadable file is an absent value there.
\<close>

subsection \<open>Cells, sheets and frames\<close>

datatype cell = Blank | Num rat | Txt string

type_synonym sheet = "cell list list"

record frame =
  columns :: "cell list"
  rows :: "cell list list"

text \<open>
  \<^verbatim>\<open>pd.read_excel(path, skiprows=skip)\<close>: the first row left after the skipped ones
  gives the column labels, the rows below it are the data. A sheet with no row left yields
  an empty frame without columns.
\<close>

definition read_excel :: "sheet \<Rightarrow> nat \<Rightarrow> frame" where
  "read_excel sh skip =
     (case drop skip sh of
        [] \<Rightarrow> \<lparr>columns = [], rows = []\<rparr>
      | h # rs \<Rightarrow> \<lparr>columns = h, rows = rs\<rparr>)"

definition KEY_COL :: string where
  "KEY_COL = ''L01 Material Price Group Key''"

definition NET_COL :: string where
  "NET_COL = ''Inv Net Amt''"

definition MATERIAL_COL :: string where
  "MATERIAL_COL = ''Material''"

text \<open>The test of line 41: all three labels are among the columns of the frame.\<close>

definition has_required :: "frame \<Rightarrow> bool" where
  "has_required df \<longleftrightarrow>
     Txt KEY_COL \<in> set (columns df) \<and> Txt NET_COL \<in> set (columns df)
     \<and> Txt MATERIAL_COL \<in> set (columns df)"

text \<open>
  The \<^verbatim>\<open>for skip in range(5): ... break ... else: return\<close> loop of lines 39 to 45,
  started at \<open>skip\<close>. The result is the accepted offset with its frame, or \<open>None\<close> when
  the loop runs through.
\<close>

function find_header :: "sheet \<Rightarrow> nat \<Rightarrow> (nat \<times> frame) option" where
  "find_header sh skip =
     (if 5 \<le> skip then None
      else if has_required (read_excel sh skip) then Some (skip, read_excel sh skip)
      else find_header sh (Suc skip))"
  by pat_completeness auto
termination
  by (relation "measure (\<lambda>(sh, skip). 5 - skip)") auto

declare find_header.simps [simp del]

subsection \<open>Exceptions and outcomes\<close>

text \<open>
  An exception is a value. \<open>ReadError\<close> stands for whatever a library raises on a file it
  cannot read; \<open>AmountNotFound\<close> is the \<^verbatim>\<open>ValueError\<close> of line 33 with its message;
  \<open>InvalidLiteral\<close> is the \<^verbatim>\<open>ValueError\<close> of \<^verbatim>\<open>int()\<close> on the given text.
\<close>

datatype exn =
    ReadError
  | TypeError
  | AmountNotFound string
  | KeyError string
  | InvalidLiteral string
  | OSError

subsection \<open>Characters and numerals of Python strings\<close>

definition is_digit :: "char \<Rightarrow> bool" where
  "is_digit c \<longleftrightarrow> c \<in> set ''0123456789''"

definition is_space :: "char \<Rightarrow> bool" where
  "is_space c \<longleftrightarrow>
     c \<in> set [CHR '' '', CHR 0x09, CHR 0x0A, CHR 0x0B, CHR 0x0C, CHR 0x0D,
               CHR 0x1C, CHR 0x1D, CHR 0x1E, CHR 0x1F]"

text \<open>\<^verbatim>\<open>list.index\<close>: the position of the first occurrence, \<open>None\<close> for the ValueError.\<close>

fun index_of :: "'a \<Rightarrow> 'a list \<Rightarrow> nat option" where
  "index_of x [] = None"
| "index_of x (y # ys) = (if x = y then Some 0 else map_option Suc (index_of x ys))"

definition digit_val :: "char \<Rightarrow> nat" where
  "digit_val c = (case index_of c ''0123456789'' of Some d \<Rightarrow> d | None \<Rightarrow> 0)"

definition nat_of_digits :: "string \<Rightarrow> nat" where
  "nat_of_digits s = foldl (\<lambda>n c. 10 * n + digit_val c) 0 s"

fun show_nat :: "nat \<Rightarrow> string" where
  "show_nat n =
     (if n < 10 then [''0123456789'' ! n]
      else show_nat (n div 10) @ [''0123456789'' ! (n mod 10)])"

declare show_nat.simps [simp del]

text \<open>\<^verbatim>\<open>str(i)\<close> of an integer.\<close>

definition show_int :: "int \<Rightarrow> string" where
  "show_int i = (if i < 0 then CHR ''-'' # show_nat (nat (- i)) else show_nat (nat i))"

text \<open>\<^verbatim>\<open>s.strip()\<close>.\<close>

definition strip :: "string \<Rightarrow> string" where
  "strip s = rev (dropWhile is_space (rev (dropWhile is_space s)))"

text \<open>
  \<^verbatim>\<open>s.zfill(width)\<close>: a string at least \<open>width\<close> long is returned as it is; zeros go
  after a leading sign.
\<close>

definition zfill :: "nat \<Rightarrow> string \<Rightarrow> string" where
  "zfill width s =
     (if width \<le> length s then s
      else (case s of
              [] \<Rightarrow> replicate width (CHR ''0'')
            | c # cs \<Rightarrow>
                if c = CHR ''+'' \<or> c = CHR ''-''
                then c # replicate (width - length s) (CHR ''0'') @ cs
                else replicate (width - length s) (CHR ''0'') @ s))"

text \<open>
  The body of an integer literal as \<^verbatim>\<open>int()\<close> accepts it: digits, with single
  underscores between digits.
\<close>

fun digit_groups :: "string \<Rightarrow> bool" where
  "digit_groups [] = False"
| "digit_groups [c] = is_digit c"
| "digit_groups (c # d # cs) =
     (is_digit c \<and> (if d = CHR ''_'' then digit_groups cs else digit_groups (d # cs)))"

text \<open>\<^verbatim>\<open>int(s)\<close> of a text: surrounding whitespace and one sign are allowed.\<close>

definition int_of_text :: "string \<Rightarrow> exn + int" where
  "int_of_text s =
     (let t = strip s;
          neg = (case t of [] \<Rightarrow> False | c # _ \<Rightarrow> c = CHR ''-'');
          b = (case t of [] \<Rightarrow> [] | c # cs \<Rightarrow> if c = CHR ''-'' \<or> c = CHR ''+'' then cs else t)
      in if digit_groups b
         then Inr (if neg then - int (nat_of_digits (filter is_digit b))
                   else int (nat_of_digits (filter is_digit b)))
         else Inl (InvalidLiteral s))"

subsection \<open>The amount on the PDF\<close>

text \<open>
  What \<^verbatim>\<open>fitz\<close> finds at the path: a file it cannot open (or one without a page), or
  the text of the first page.
\<close>

datatype pdf_file = Unreadable | FirstPage string

definition LABEL :: string where
  "LABEL = ''Total Due USD''"

text \<open>
  One attempt of the pattern \<^verbatim>\<open>Total Due USD\s+([\d,]+\.\d{2})\<close> at the start of the
  text; the result is group 1. Both repetitions are greedy and the character that has to
  follow each is outside its class, so giving characters back never helps: the attempt is
  decided by the longest runs.
\<close>

definition match_here :: "string \<Rightarrow> string option" where
  "match_here s =
     (if take (length LABEL) s \<noteq> LABEL then None
      else
        let r1 = drop (length LABEL) s;
            r2 = dropWhile is_space r1;
            g = takeWhile (\<lambda>c. is_digit c \<or> c = CHR '','') r2;
            r3 = dropWhile (\<lambda>c. is_digit c \<or> c = CHR '','') r2
        in if takeWhile is_space r1 = [] \<or> g = [] then None
           else (case r3 of
                   p # a # b # _ \<Rightarrow>
                     if p = CHR ''.'' \<and> is_digit a \<and> is_digit b then Some (g @ [p, a, b])
                     else None
                 | _ \<Rightarrow> None))"

text \<open>\<^verbatim>\<open>re.search\<close>: the first position, from the left, where an attempt succeeds.\<close>

fun re_search :: "string \<Rightarrow> string option" where
  "re_search [] = match_here []"
| "re_search (c # cs) =
     (case match_here (c # cs) of Some g \<Rightarrow> Some g | None \<Rightarrow> re_search cs)"

text \<open>
  \<^verbatim>\<open>float(match.group(1).replace(",", ""))\<close> on a text of the shape the pattern
  guarantees: digits (maybe none), a point, two digits.
\<close>

definition float_of_group :: "string \<Rightarrow> rat" where
  "float_of_group g =
     (let t = filter (\<lambda>c. c \<noteq> CHR '','') g
      in of_nat (nat_of_digits (take (length t - 3) t))
         + of_nat (nat_of_digits (drop (length t - 2) t)) / 100)"

definition extract_invoice_amount :: "pdf_file \<Rightarrow> exn + rat" where
  "extract_invoice_amount p =
     (case p of
        Unreadable \<Rightarrow> Inl ReadError
      | FirstPage text \<Rightarrow>
          (case re_search text of
             Some g \<Rightarrow> Inr (float_of_group g)
           | None \<Rightarrow>
               Inl (AmountNotFound
                 (''Amount not found in PDF. Text sample:'' @ [CHR 0x0A] @ take 500 text
                  @ ''...''))))"

subsection \<open>Line items\<close>

text \<open>
  Of a frame the pipeline reads three columns only. A label that occurs twice names its
  first column (pandas renames the later ones), and a row that is shorter than the header
  is blank there.
\<close>

record line_item =
  grp_key :: cell
  net_amt :: cell
  material :: cell

definition cell_at :: "cell list \<Rightarrow> nat \<Rightarrow> cell" where
  "cell_at r i = (if i < length r then r ! i else Blank)"

definition line_items :: "frame \<Rightarrow> line_item list" where
  "line_items df =
     (case (index_of (Txt KEY_COL) (columns df), index_of (Txt NET_COL) (columns df),
            index_of (Txt MATERIAL_COL) (columns df)) of
        (Some k, Some n, Some m) \<Rightarrow>
          map (\<lambda>r. \<lparr>grp_key = cell_at r k, net_amt = cell_at r n, material = cell_at r m\<rparr>)
            (rows df)
      | _ \<Rightarrow> [])"

text \<open>\<^verbatim>\<open>df.dropna(subset=['L01 Material Price Group Key'])\<close>, line 47.\<close>

definition dropna_key :: "line_item list \<Rightarrow> line_item list" where
  "dropna_key df = filter (\<lambda>r. grp_key r \<noteq> Blank) df"

fun is_num :: "cell \<Rightarrow> bool" where
  "is_num (Num q) = True"
| "is_num c = False"

fun is_txt :: "cell \<Rightarrow> bool" where
  "is_txt (Txt s) = True"
| "is_txt c = False"

text \<open>
  Python orders numbers by value and texts by code points, and refuses to compare a number
  with a text. \<open>sort_rank\<close> is the sorting key of a column that holds one kind only;
  \<open>mixed\<close> is the case where the comparison raises a TypeError.
\<close>

fun sort_rank :: "cell \<Rightarrow> nat \<times> rat \<times> string" where
  "sort_rank Blank = (0, 0, [])"
| "sort_rank (Num q) = (1, q, [])"
| "sort_rank (Txt s) = (2, 0, s)"

definition mixed :: "cell list \<Rightarrow> bool" where
  "mixed cs \<longleftrightarrow> list_ex is_num cs \<and> list_ex is_txt cs"

text \<open>\<^verbatim>\<open>df.sort_values(by='L01 Material Price Group Key', inplace=True)\<close>, line 48.\<close>

definition sort_by_key :: "line_item list \<Rightarrow> exn + line_item list" where
  "sort_by_key df =
     (if mixed (map grp_key df) then Inl TypeError
      else Inr (sort_key (\<lambda>r. sort_rank (grp_key r)) df))"

text \<open>Lines 47 and 48 on the frame the header search accepted.\<close>

definition prepare :: "frame \<Rightarrow> exn + line_item list" where
  "prepare df0 = sort_by_key (dropna_key (line_items df0))"

subsection \<open>Grouping and allocation\<close>

text \<open>
  A float64 as far as the pipeline can tell values apart: a finite value, or one of the
  results of a division by zero.
\<close>

datatype fval = Fin rat | PosInf | NegInf | NaN

text \<open>Float division of finite values: no exception, \<open>0 / 0\<close> is NaN.\<close>

definition fdiv :: "rat \<Rightarrow> rat \<Rightarrow> fval" where
  "fdiv a b =
     (if b \<noteq> 0 then Fin (a / b)
      else if a = 0 then NaN
      else if 0 < a then PosInf else NegInf)"

text \<open>Float multiplication by a finite value: infinity times zero is NaN.\<close>

fun fmul :: "fval \<Rightarrow> rat \<Rightarrow> fval" where
  "fmul (Fin p) t = Fin (p * t)"
| "fmul NaN t = NaN"
| "fmul PosInf t = (if t = 0 then NaN else if 0 < t then PosInf else NegInf)"
| "fmul NegInf t = (if t = 0 then NaN else if 0 < t then NegInf else PosInf)"

text \<open>The groups of \<^verbatim>\<open>groupby\<close>: the distinct keys, in ascending order.\<close>

definition group_keys :: "line_item list \<Rightarrow> cell list" where
  "group_keys df = sort_key sort_rank (remdups (map grp_key df))"

text \<open>The rows of one group, in the order they have in the frame.\<close>

definition group_rows :: "line_item list \<Rightarrow> cell \<Rightarrow> line_item list" where
  "group_rows df k = filter (\<lambda>r. grp_key r = k) df"

text \<open>What a cell adds to a \<^verbatim>\<open>sum\<close>: pandas skips a missing value.\<close>

fun net_value :: "cell \<Rightarrow> rat" where
  "net_value (Num q) = q"
| "net_value c = 0"

text \<open>
  \<^verbatim>\<open>df.groupby(key).agg({'Inv Net Amt': 'sum'}).reset_index()\<close>, line 66. A text among
  the amounts makes the column an object column, on which the sum or the division of the
  next line raises a TypeError.
\<close>

definition groupby_sum :: "line_item list \<Rightarrow> exn + (cell \<times> rat) list" where
  "groupby_sum df =
     (if list_ex is_txt (map net_amt df) then Inl TypeError
      else Inr (map (\<lambda>k. (k, sum_list (map (\<lambda>r. net_value (net_amt r)) (group_rows df k))))
                  (group_keys df)))"

record alloc_group =
  gkey :: cell
  net_sum :: rat
  percentage :: fval
  allocated :: fval

text \<open>Lines 67 and 68: the share of each group and its part of the total due.\<close>

definition allocate :: "(cell \<times> rat) list \<Rightarrow> rat \<Rightarrow> alloc_group list" where
  "allocate grouped total_due_value =
     map (\<lambda>(k, s).
            \<lparr>gkey = k, net_sum = s,
             percentage = fdiv s (sum_list (map snd grouped)),
             allocated = fmul (fdiv s (sum_list (map snd grouped))) total_due_value\<rparr>)
       grouped"

text \<open>
  The key of \<^verbatim>\<open>sort_values(by='Inv Net Amt', ascending=False)\<close>: larger amounts
  first, missing amounts last.
\<close>

fun net_desc_rank :: "cell \<Rightarrow> nat \<times> rat" where
  "net_desc_rank (Num q) = (0, - q)"
| "net_desc_rank c = (1, 0)"

text \<open>\<^verbatim>\<open>GroupBy.first()\<close> on one column of one group: the first value that is present.\<close>

definition first_valid :: "cell list \<Rightarrow> cell" where
  "first_valid cs = (case find (\<lambda>c. c \<noteq> Blank) cs of Some c \<Rightarrow> c | None \<Rightarrow> Blank)"

text \<open>Line 70, restricted to the key and the material as line 71 does.\<close>

definition top_materials :: "line_item list \<Rightarrow> (cell \<times> cell) list" where
  "top_materials df =
     (let sorted = sort_key (\<lambda>r. net_desc_rank (net_amt r)) df
      in map (\<lambda>k. (k, first_valid (map material (group_rows sorted k)))) (group_keys sorted))"

text \<open>\<^verbatim>\<open>pd.merge(grouped, top_materials[[key, 'Material']], on=key)\<close>: an inner join.\<close>

definition merge_on_key ::
  "alloc_group list \<Rightarrow> (cell \<times> cell) list \<Rightarrow> (alloc_group \<times> cell) list" where
  "merge_on_key grouped tops =
     concat (map (\<lambda>g. map (\<lambda>t. (g, snd t)) (filter (\<lambda>t. fst t = gkey g) tops)) grouped)"

text \<open>Lines 66 to 71: the frame the rows are built from.\<close>

definition final_df :: "line_item list \<Rightarrow> rat \<Rightarrow> exn + (alloc_group \<times> cell) list" where
  "final_df df total_due_value =
     (case groupby_sum df of
        Inl e \<Rightarrow> Inl e
      | Inr grouped \<Rightarrow> Inr (merge_on_key (allocate grouped total_due_value) (top_materials df)))"

subsection \<open>The template\<close>

text \<open>A workbook: its sheets by name, each with its rows.\<close>

type_synonym workbook = "(string \<times> cell list list) list"

definition SHEET_NAME :: string where
  "SHEET_NAME = ''Item Upload''"

text \<open>
  Lines 75 and 76: the sheet by its name (a KeyError when the workbook has none of that
  name) and the cells of its first row that hold a value.
\<close>

definition template_headers :: "workbook \<Rightarrow> exn + cell list" where
  "template_headers wb =
     (case map_of wb SHEET_NAME of
        None \<Rightarrow> Inl (KeyError SHEET_NAME)
      | Some ws \<Rightarrow> Inr (filter (\<lambda>c. c \<noteq> Blank) (case ws of [] \<Rightarrow> [] | r # _ \<Rightarrow> r)))"

record col_indices =
  material_index :: nat
  amount_index :: nat
  upc_index :: nat
  quantity_index :: nat

text \<open>Lines 79 to 86; \<open>None\<close> is the ValueError that the pipeline catches.\<close>

definition resolve_indices :: "cell list \<Rightarrow> col_indices option" where
  "resolve_indices headers =
     (case index_of (Txt ''Item_Number'') headers of
        None \<Rightarrow> None
      | Some m \<Rightarrow>
     (case index_of (Txt ''Extended_Amount'') headers of
        None \<Rightarrow> None
      | Some a \<Rightarrow>
     (case index_of (Txt ''UPC_Number'') headers of
        None \<Rightarrow> None
      | Some u \<Rightarrow>
     (case index_of (Txt ''Quantity'') headers of
        None \<Rightarrow> None
      | Some q \<Rightarrow>
          Some \<lparr>material_index = m, amount_index = a, upc_index = u, quantity_index = q\<rparr>))))"

subsection \<open>Output rows\<close>

text \<open>The Python values that a cell of an output row holds.\<close>

datatype pyval = PNone | PStr string | PInt int | PFloat fval

type_synonym out_row = "pyval list"

text \<open>
  \<^verbatim>\<open>round(x, 2)\<close>: to the nearest multiple of a hundredth, a tie to the even one; an
  infinity stays.
\<close>

definition rint :: "rat \<Rightarrow> int" where
  "rint x =
     (let f = \<lfloor>x\<rfloor>; d = x - of_int f
      in if d < 1 / 2 then f else if 1 / 2 < d then f + 1 else if even f then f else f + 1)"

definition round2 :: "rat \<Rightarrow> rat" where
  "round2 x = of_int (rint (x * 100)) / 100"

fun fround2 :: "fval \<Rightarrow> fval" where
  "fround2 (Fin x) = Fin (round2 x)"
| "fround2 v = v"

text \<open>
  \<^verbatim>\<open>int(r['Material'])\<close>: a number is cut towards zero, a text is parsed, a missing
  value cannot be converted.
\<close>

fun py_int :: "cell \<Rightarrow> exn + int" where
  "py_int (Num q) = Inr (if 0 \<le> q then \<lfloor>q\<rfloor> else \<lceil>q\<rceil>)"
| "py_int (Txt s) = int_of_text s"
| "py_int Blank = Inl (InvalidLiteral ''nan'')"

text \<open>
  The loop of lines 90 to 96. A group without material or with a NaN amount is skipped;
  the first \<^verbatim>\<open>int()\<close> that fails ends the loop with its exception.
\<close>

fun build_rows :: "nat \<Rightarrow> col_indices \<Rightarrow> (alloc_group \<times> cell) list \<Rightarrow> exn + out_row list" where
  "build_rows num_columns ix [] = Inr []"
| "build_rows num_columns ix ((g, m) # rest) =
     (if m = Blank \<or> allocated g = NaN then build_rows num_columns ix rest
      else
        (case py_int m of
           Inl e \<Rightarrow> Inl e
         | Inr i \<Rightarrow>
             (case build_rows num_columns ix rest of
                Inl e \<Rightarrow> Inl e
              | Inr data_rows \<Rightarrow>
                  Inr ((replicate num_columns (PStr ''''))
                         [material_index ix := PStr (show_int i),
                          amount_index ix := PFloat (fround2 (allocated g))]
                       # data_rows))))"

subsection \<open>The master file and the UPC column\<close>

text \<open>\<^verbatim>\<open>astype(str)\<close> on a column read with \<^verbatim>\<open>dtype=str\<close>: a missing cell is NaN still.\<close>

definition astype_str :: "string option \<Rightarrow> string" where
  "astype_str v = (case v of None \<Rightarrow> ''nan'' | Some s \<Rightarrow> s)"

text \<open>\<^verbatim>\<open>drop_duplicates(subset='Item_Number', keep='first')\<close> on rows (UPC, Item_Number).\<close>

fun drop_duplicates :: "string list \<Rightarrow> (string \<times> string) list \<Rightarrow> (string \<times> string) list" where
  "drop_duplicates seen [] = []"
| "drop_duplicates seen ((u, i) # rs) =
     (if i \<in> set seen then drop_duplicates seen rs
      else (u, i) # drop_duplicates (i # seen) rs)"

text \<open>Lines 100 to 104: the dictionary from item numbers to UPCs.\<close>

definition load_lookup :: "(string option \<times> string option) list \<Rightarrow> (string \<rightharpoonup> string)" where
  "load_lookup master_rows =
     foldl (\<lambda>d (u, i). d(i \<mapsto> u)) Map.empty
       (drop_duplicates []
          (map (\<lambda>(u, i). (strip (astype_str u), strip (astype_str i))) master_rows))"

text \<open>
  \<^verbatim>\<open>str(v)\<close> as far as the pipeline needs it: it is applied to the item cell, which
  line 94 sets to a string. The text of a float is not modelled.
\<close>

fun py_str :: "pyval \<Rightarrow> string" where
  "py_str (PStr s) = s"
| "py_str (PInt i) = show_int i"
| "py_str PNone = ''None''"

text \<open>The body of the loop of lines 106 to 114.\<close>

definition map_upc :: "(string \<rightharpoonup> string) \<Rightarrow> col_indices \<Rightarrow> out_row \<Rightarrow> out_row" where
  "map_upc upc_lookup ix row =
     (let item = strip (py_str (row ! material_index ix));
          upc_value = (case upc_lookup item of Some u \<Rightarrow> u | None \<Rightarrow> ''NA'')
      in if upc_value \<noteq> ''NA''
         then row[upc_index ix := PStr ([CHR ''='', CHR 0x22] @ zfill 12 upc_value @ [CHR 0x22])]
         else row[upc_index ix := PStr ''NA''])"

text \<open>
  Lines 99 to 118. When the master file cannot be read, the handler of line 117 prints the
  error and the rows stay as they were built.
\<close>

definition map_upcs ::
  "(string option \<times> string option) list option \<Rightarrow> col_indices \<Rightarrow> out_row list \<Rightarrow> out_row list"
  where
  "map_upcs master_file ix data_rows =
     (case master_file of
        None \<Rightarrow> data_rows
      | Some master_rows \<Rightarrow> map (map_upc (load_lookup master_rows) ix) data_rows)"

subsection \<open>Quantity, padding and the CSV\<close>

text \<open>The body of the loop of lines 121 to 125.\<close>

definition fill_quantity :: "col_indices \<Rightarrow> out_row \<Rightarrow> out_row" where
  "fill_quantity ix row =
     (if row ! material_index ix \<notin> set [PNone, PStr '''', PStr ''NA'']
      then row[quantity_index ix := PInt 1]
      else row[quantity_index ix := PStr ''''])"

text \<open>The loop of lines 128 and 129.\<close>

function pad_rows :: "nat \<Rightarrow> out_row list \<Rightarrow> out_row list" where
  "pad_rows num_columns data_rows =
     (if length data_rows < 100
      then pad_rows num_columns (data_rows @ [replicate num_columns (PStr '''')])
      else data_rows)"
  by pat_completeness auto
termination
  by (relation "measure (\<lambda>(num_columns, data_rows). 100 - length data_rows)") auto

declare pad_rows.simps [simp del]

record csv =
  csv_headers :: "cell list"
  csv_rows :: "out_row list"

subsection \<open>The pipeline\<close>

text \<open>
  What a job finds on disk: the uploaded spreadsheet (absent when pandas cannot read it),
  the PDF beside it (absent when no file has that name), the template workbook, the rows
  (UPC, Item_Number) of the master file below its header, read as texts, and whether the
  output folder can be written.
\<close>

record job =
  excel :: "sheet option"
  pdf :: "pdf_file option"
  template :: "workbook option"
  master :: "(string option \<times> string option) list option"
  output_ok :: bool

text \<open>The messages after which \<^verbatim>\<open>process_excel_file\<close> returns without a file.\<close>

datatype abort =
    RequiredColumnsNotFound
  | PdfNotFound
  | AmountExtractionFailed exn
  | TemplateHeadersNotFound

text \<open>
  How a call of \<^verbatim>\<open>process_excel_file\<close> ends: an exception leaves it, it prints a
  message and returns early, or it writes the CSV.
\<close>

datatype outcome = Raised exn | Returned abort | Saved csv

definition process_excel_file :: "job \<Rightarrow> outcome" where
  "process_excel_file j =
     (case excel j of
        None \<Rightarrow> Raised ReadError
      | Some sh \<Rightarrow>
     (case find_header sh 0 of
        None \<Rightarrow> Returned RequiredColumnsNotFound
      | Some (skip, df0) \<Rightarrow>
     (case prepare df0 of
        Inl e \<Rightarrow> Raised e
      | Inr df \<Rightarrow>
     (case pdf j of
        None \<Rightarrow> Returned PdfNotFound
      | Some p \<Rightarrow>
     (case extract_invoice_amount p of
        Inl e \<Rightarrow> Returned (AmountExtractionFailed e)
      | Inr total_due_value \<Rightarrow>
     (case final_df df total_due_value of
        Inl e \<Rightarrow> Raised e
      | Inr fdf \<Rightarrow>
     (case template j of
        None \<Rightarrow> Raised ReadError
      | Some wb \<Rightarrow>
     (case template_headers wb of
        Inl e \<Rightarrow> Raised e
      | Inr headers \<Rightarrow>
     (case resolve_indices headers of
        None \<Rightarrow> Returned TemplateHeadersNotFound
      | Some ix \<Rightarrow>
     (case build_rows (length headers) ix fdf of
        Inl e \<Rightarrow> Raised e
      | Inr data_rows \<Rightarrow>
          if output_ok j
          then Saved \<lparr>csv_headers = headers,
                      csv_rows = pad_rows (length headers)
                        (map (fill_quantity ix) (map_upcs (master j) ix data_rows))\<rparr>
          else Raised OSError))))))))))"

subsection \<open>The upload handler\<close>

text \<open>
  The request says which of the two form fields it carries; the job is what the pipeline
  finds once the handler has saved both files.
\<close>

record request =
  has_excel :: bool
  has_pdf :: bool

text \<open>
  The JSON body: a message, an error, or the error of line 166, which is the text
  \<^verbatim>\<open>Error processing files: \<close> followed by \<^verbatim>\<open>str(e)\<close> of the exception.
\<close>

datatype body = Message string | Error string | ErrorProcessing exn

definition process_invoice :: "request \<Rightarrow> job \<Rightarrow> nat \<times> body" where
  "process_invoice req j =
     (if \<not> has_excel req \<or> \<not> has_pdf req
      then (400, Error ''Excel and PDF files are required!'')
      else (case process_excel_file j of
              Raised e \<Rightarrow> (500, ErrorProcessing e)
            | Returned a \<Rightarrow> (200, Message ''Files processed successfully!'')
            | Saved c \<Rightarrow> (200, Message ''Files processed successfully!'')))"

subsection \<open>Example inputs\<close>

text \<open>
  A spreadsheet with a title row above its header, two price groups and one row without a
  key; a template with an empty cell in its header row; a master file whose second UPC has
  13 characters.
\<close>

definition ex_header :: "cell list" where
  "ex_header = [Txt ''Material'', Txt ''Inv Net Amt'', Txt ''L01 Material Price Group Key'']"

definition ex_sheet :: sheet where
  "ex_sheet =
     [[Txt ''Report''], ex_header,
      [Num 11, Num 100, Txt ''A''], [Num 22, Num 300, Txt ''A''],
      [Num 33, Num 600, Txt ''B''], [Num 44, Num 5, Blank]]"

definition ex_template :: workbook where
  "ex_template =
     [(''Item Upload'',
       [[Txt ''Item_Number'', Txt ''Quantity'', Blank, Txt ''UPC_Number'',
         Txt ''Extended_Amount'']])]"

definition ex_job :: job where
  "ex_job =
     \<lparr>excel = Some ex_sheet, pdf = Some (FirstPage ''Total Due USD 1,000.00''),
      template = Some ex_template,
      master = Some [(Some ''123'', Some ''22''), (Some ''1234567890123'', Some '' 33 '')],
      output_ok = True\<rparr>"

definition ex_csv_headers :: "cell list" where
  "ex_csv_headers =
     [Txt ''Item_Number'', Txt ''Quantity'', Txt ''UPC_Number'', Txt ''Extended_Amount'']"

text \<open>Both form fields present.\<close>

definition ex_request :: request where
  "ex_request = \<lparr>has_excel = True, has_pdf = True\<rparr>"

text \<open>A sheet whose header row is repeated: the columns are found at offset 0 and at 1.\<close>

definition ex_sheet_twice :: sheet where
  "ex_sheet_twice = [ex_header, ex_header, [Num 11, Num 100, Txt ''A'']]"

text \<open>A sheet without the required columns in its first five rows.\<close>

definition ex_sheet_no_header :: sheet where
  "ex_sheet_no_header = [[Txt ''Report''], [Txt ''Material'', Txt ''Inv Net Amt'']]"

text \<open>The positions of the four named columns in the example template.\<close>

definition ex_ix :: col_indices where
  "ex_ix = \<lparr>material_index = 0, amount_index = 3, upc_index = 2, quantity_index = 1\<rparr>"

text \<open>The file that the example job writes.\<close>

definition ex_csv :: csv where
  "ex_csv =
     \<lparr>csv_headers = ex_csv_headers,
      csv_rows =
        [[PStr ''22'', PInt 1, PStr ([CHR ''='', CHR 0x22] @ ''000000000123'' @ [CHR 0x22]),
          PFloat (Fin 400)],
         [PStr ''33'', PInt 1, PStr ([CHR ''='', CHR 0x22] @ ''1234567890123'' @ [CHR 0x22]),
          PFloat (Fin 600)]]
        @ replicate 98 (replicate 4 (PStr ''''))\<rparr>"

text \<open>The same file when the master file cannot be read.\<close>

definition ex_csv_no_master :: csv where
  "ex_csv_no_master =
     \<lparr>csv_headers = ex_csv_headers,
      csv_rows =
        [[PStr ''22'', PInt 1, PStr '''', PFloat (Fin 400)],
         [PStr ''33'', PInt 1, PStr '''', PFloat (Fin 600)]]
        @ replicate 98 (replicate 4 (PStr ''''))\<rparr>"






subsection \<open>The order of net amounts\<close>






section \<open>Properties\<close>

subsection \<open>Evaluation of the examples\<close>

lemma pad_rows_eq:
  "pad_rows n rs = rs @ replicate (100 - length rs) (replicate n (PStr ''''))"
proof (induction n rs rule: pad_rows.induct)
  case (1 n rs)
  show ?case
  proof (cases "length rs < 100")
    case True
    then have "100 - length rs = Suc (100 - Suc (length rs))" by simp
    with True 1 show ?thesis
      by (subst pad_rows.simps) (simp add: replicate_append_same)
  next
    case False
    then show ?thesis by (subst pad_rows.simps) simp
  qed
qed

lemma replicate_num: "replicate (numeral k) x = x # replicate (pred_numeral k) x"
  by (simp add: numeral_eq_Suc)

lemmas eval_defs = process_excel_file_def
  find_header.simps read_excel_def has_required_def KEY_COL_def NET_COL_def MATERIAL_COL_def
  prepare_def sort_by_key_def dropna_key_def line_items_def cell_at_def mixed_def
  extract_invoice_amount_def match_here_def LABEL_def is_space_def is_digit_def
  float_of_group_def nat_of_digits_def digit_val_def final_df_def groupby_sum_def
  group_keys_def group_rows_def allocate_def fdiv_def top_materials_def first_valid_def
  merge_on_key_def template_headers_def SHEET_NAME_def resolve_indices_def
  show_int_def show_nat.simps round2_def rint_def map_upcs_def map_upc_def load_lookup_def
  astype_str_def strip_def zfill_def fill_quantity_def pad_rows_eq replicate_num

lemmas ex_defs = ex_job_def ex_sheet_def ex_header_def ex_template_def ex_csv_headers_def
  ex_request_def ex_sheet_twice_def ex_sheet_no_header_def ex_ix_def ex_csv_def
  ex_csv_no_master_def

lemma ex_job_saved: "process_excel_file ex_job = Saved ex_csv"
  by (simp add: eval_defs ex_defs)

lemma ex_job_no_master_saved:
  "process_excel_file (ex_job\<lparr>master := None\<rparr>) = Saved ex_csv_no_master"
  by (simp add: eval_defs ex_defs)

lemma ex_job_no_pdf: "process_excel_file (ex_job\<lparr>pdf := None\<rparr>) = Returned PdfNotFound"
  by (simp add: eval_defs ex_defs)

lemma ex_job_no_template: "process_excel_file (ex_job\<lparr>template := None\<rparr>) = Raised ReadError"
  by (simp add: eval_defs ex_defs)

lemma ex_resolve: "resolve_indices ex_csv_headers = Some ex_ix"
  by (simp add: resolve_indices_def ex_defs)

subsection \<open>The header search\<close>







subsection \<open>Column indices\<close>

lemma index_of_Some: "index_of x xs = Some i \<Longrightarrow> i < length xs \<and> xs ! i = x"
proof (induction xs arbitrary: i)
  case Nil
  then show ?case by simp
next
  case (Cons y ys)
  show ?case
  proof (cases "x = y")
    case True
    with Cons.prems show ?thesis by simp
  next
    case False
    with Cons.prems obtain k where k: "index_of x ys = Some k" "i = Suc k" by auto
    with Cons.IH [of k] show ?thesis by simp
  qed
qed

lemma resolve_indices_bounds:
  assumes "resolve_indices hs = Some ix"
  shows "material_index ix < length hs" "amount_index ix < length hs"
    "upc_index ix < length hs" "quantity_index ix < length hs"
  using assms
  by (auto simp: resolve_indices_def split: option.splits dest: index_of_Some)

lemma resolve_indices_cells:
  assumes "resolve_indices hs = Some ix"
  shows "hs ! material_index ix = Txt ''Item_Number''"
    "hs ! amount_index ix = Txt ''Extended_Amount''"
    "hs ! upc_index ix = Txt ''UPC_Number''"
    "hs ! quantity_index ix = Txt ''Quantity''"
  using assms
  by (auto simp: resolve_indices_def split: option.splits dest: index_of_Some)

lemma resolve_indices_distinct:
  assumes "resolve_indices hs = Some ix"
  shows "material_index ix \<noteq> amount_index ix" "material_index ix \<noteq> upc_index ix"
    "material_index ix \<noteq> quantity_index ix" "amount_index ix \<noteq> upc_index ix"
    "amount_index ix \<noteq> quantity_index ix" "upc_index ix \<noteq> quantity_index ix"
proof -
  note c = resolve_indices_cells [OF assms]
  show "material_index ix \<noteq> amount_index ix" using c(1,2) by auto
  show "material_index ix \<noteq> upc_index ix" using c(1,3) by auto
  show "material_index ix \<noteq> quantity_index ix" using c(1,4) by auto
  show "amount_index ix \<noteq> upc_index ix" using c(2,3) by auto
  show "amount_index ix \<noteq> quantity_index ix" using c(2,4) by auto
  show "upc_index ix \<noteq> quantity_index ix" using c(3,4) by auto
qed

subsection \<open>Decimal numerals\<close>

lemma digit_nth: "d < 10 \<Longrightarrow> is_digit (''0123456789'' ! d)"
  unfolding is_digit_def by (rule nth_mem) simp

lemma show_nat_digits: "c \<in> set (show_nat n) \<Longrightarrow> is_digit c"
proof (induction n arbitrary: c rule: show_nat.induct)
  case (1 n)
  show ?case
  proof (cases "n < 10")
    case True
    then have "show_nat n = [''0123456789'' ! n]" by (subst show_nat.simps) simp
    with "1.prems" have "c = ''0123456789'' ! n" by simp
    with digit_nth [OF True] show ?thesis by simp
  next
    case False
    then have e: "show_nat n = show_nat (n div 10) @ [''0123456789'' ! (n mod 10)]"
      by (subst show_nat.simps) simp
    have m: "n mod 10 < 10" by simp
    from "1.prems" e have "c \<in> set (show_nat (n div 10)) \<or> c = ''0123456789'' ! (n mod 10)"
      by auto
    then show ?thesis
    proof
      assume "c \<in> set (show_nat (n div 10))"
      with "1.IH" False show ?thesis by simp
    next
      assume "c = ''0123456789'' ! (n mod 10)"
      with digit_nth [OF m] show ?thesis by simp
    qed
  qed
qed

lemma show_nat_nonempty: "show_nat n \<noteq> []"
  by (subst show_nat.simps) simp

lemma show_int_nonempty: "show_int i \<noteq> []"
  by (simp add: show_int_def show_nat_nonempty)

lemma show_int_chars: "c \<in> set (show_int i) \<Longrightarrow> is_digit c \<or> c = CHR ''-''"
  by (cases "i < 0") (auto simp: show_int_def dest: show_nat_digits)

lemma show_int_not_NA: "show_int i \<noteq> ''NA''"
proof
  assume "show_int i = ''NA''"
  then have "CHR ''N'' \<in> set (show_int i)" by simp
  from show_int_chars [OF this] show False by (simp add: is_digit_def)
qed

lemma show_int_populated: "PStr (show_int i) \<notin> set [PNone, PStr '''', PStr ''NA'']"
  using show_int_nonempty [of i] show_int_not_NA [of i] by simp

subsection \<open>The rows that are built\<close>

lemma build_rows_cells:
  assumes "resolve_indices hs = Some ix" "build_rows (length hs) ix fdf = Inr rs" "r \<in> set rs"
  shows "length r = length hs \<and> (\<exists>i. r ! material_index ix = PStr (show_int i))
         \<and> r ! upc_index ix = PStr '''' \<and> r ! quantity_index ix = PStr ''''"
  using assms(2,3)
proof (induction fdf arbitrary: rs)
  case Nil
  then show ?case by simp
next
  case (Cons gm rest)
  obtain g m where gm: "gm = (g, m)" by (cases gm)
  note b = resolve_indices_bounds [OF assms(1)]
  note d = resolve_indices_distinct [OF assms(1)]
  show ?case
  proof (cases "m = Blank \<or> allocated g = NaN")
    case True
    with Cons gm show ?thesis by simp
  next
    case False
    with Cons.prems(1) gm obtain i rs' where
      i: "py_int m = Inr i" and rs': "build_rows (length hs) ix rest = Inr rs'"
      and rs: "rs = (replicate (length hs) (PStr ''''))
                 [material_index ix := PStr (show_int i),
                  amount_index ix := PFloat (fround2 (allocated g))] # rs'"
      by (auto split: sum.splits)
    from Cons.prems(2) rs consider
      "r = (replicate (length hs) (PStr ''''))
                 [material_index ix := PStr (show_int i),
                  amount_index ix := PFloat (fround2 (allocated g))]" | "r \<in> set rs'"
      by auto
    then show ?thesis
    proof cases
      case 1
      with b d show ?thesis by (auto simp: nth_list_update)
    next
      case 2
      with Cons.IH [OF rs'] show ?thesis by simp
    qed
  qed
qed

lemma build_rows_length:
  "build_rows n ix fdf = Inr rs \<Longrightarrow> length rs \<le> length fdf"
proof (induction fdf arbitrary: rs)
  case Nil
  then show ?case by simp
next
  case (Cons gm rest)
  obtain g m where gm: "gm = (g, m)" by (cases gm)
  show ?case
  proof (cases "m = Blank \<or> allocated g = NaN")
    case True
    with Cons gm show ?thesis by (simp add: le_SucI)
  next
    case False
    with Cons.prems gm obtain rs' where "build_rows n ix rest = Inr rs'" "length rs = Suc (length rs')"
      by (auto split: sum.splits)
    with Cons.IH show ?thesis by simp
  qed
qed

subsection \<open>The UPC and the quantity cell\<close>

lemma map_upc_length: "length (map_upc d ix r) = length r"
  by (simp add: map_upc_def Let_def)

lemma map_upc_other: "k \<noteq> upc_index ix \<Longrightarrow> map_upc d ix r ! k = r ! k"
  by (simp add: map_upc_def Let_def)


lemma fill_quantity_length: "length (fill_quantity ix r) = length r"
  by (simp add: fill_quantity_def)

lemma fill_quantity_other: "k \<noteq> quantity_index ix \<Longrightarrow> fill_quantity ix r ! k = r ! k"
  by (simp add: fill_quantity_def)

lemma fill_quantity_cell:
  "quantity_index ix < length r \<Longrightarrow>
   fill_quantity ix r ! quantity_index ix =
     (if r ! material_index ix \<notin> set [PNone, PStr '''', PStr ''NA''] then PInt 1 else PStr '''')"
  by (simp add: fill_quantity_def)

lemma saved_shape:
  assumes "process_excel_file j = Saved c"
  shows "\<exists>ix fdf rs. resolve_indices (csv_headers c) = Some ix
           \<and> build_rows (length (csv_headers c)) ix fdf = Inr rs
           \<and> csv_rows c = pad_rows (length (csv_headers c))
                (map (fill_quantity ix) (map_upcs (master j) ix rs))"
  using assms unfolding process_excel_file_def
  by (auto split: option.splits sum.splits prod.splits if_splits; blast)

subsection \<open>The rows of the file\<close>

lemma data_row_cells:
  assumes hs: "resolve_indices hs = Some ix"
    and b: "build_rows (length hs) ix fdf = Inr rs"
    and r: "r \<in> set (map (fill_quantity ix) (map_upcs m ix rs))"
  shows "length r = length hs \<and> (\<exists>i. r ! material_index ix = PStr (show_int i))
         \<and> r ! quantity_index ix = PInt 1"
proof -
  note bd = resolve_indices_bounds [OF hs]
  note ds = resolve_indices_distinct [OF hs]
  from r obtain r1 where r1: "r1 \<in> set (map_upcs m ix rs)" "r = fill_quantity ix r1" by auto
  have "\<exists>r0 \<in> set rs. length r1 = length r0 \<and> r1 ! material_index ix = r0 ! material_index ix"
  proof (cases m)
    case None
    with r1(1) show ?thesis by (auto simp: map_upcs_def)
  next
    case (Some rows)
    with r1(1) obtain r0 where "r0 \<in> set rs" "r1 = map_upc (load_lookup rows) ix r0"
      by (auto simp: map_upcs_def)
    with ds(2) show ?thesis by (auto simp: map_upc_length map_upc_other)
  qed
  then obtain r0 where r0: "r0 \<in> set rs" "length r1 = length r0"
    "r1 ! material_index ix = r0 ! material_index ix" by blast
  from build_rows_cells [OF hs b r0(1)] obtain i where
    c: "length r0 = length hs" "r0 ! material_index ix = PStr (show_int i)" by blast
  from c r0 r1(2) have l: "length r = length hs" by (simp add: fill_quantity_length)
  from ds(3) r1(2) r0(3) c(2) have m: "r ! material_index ix = PStr (show_int i)"
    by (simp add: fill_quantity_other)
  from bd(4) c(1) r0(2) have "quantity_index ix < length r1" by simp
  from fill_quantity_cell [OF this] r0(3) c(2) r1(2) show_int_populated [of i]
  have "r ! quantity_index ix = PInt 1" by simp
  with l m show ?thesis by blast
qed

lemma csv_rows_split:
  assumes "process_excel_file j = Saved c"
  shows "\<exists>ix fdf rs. resolve_indices (csv_headers c) = Some ix
           \<and> build_rows (length (csv_headers c)) ix fdf = Inr rs
           \<and> csv_rows c = map (fill_quantity ix) (map_upcs (master j) ix rs)
                @ replicate (100 - length rs) (replicate (length (csv_headers c)) (PStr ''''))"
proof -
  from saved_shape [OF assms] obtain ix fdf rs where
    s: "resolve_indices (csv_headers c) = Some ix"
    "build_rows (length (csv_headers c)) ix fdf = Inr rs"
    "csv_rows c = pad_rows (length (csv_headers c))
                (map (fill_quantity ix) (map_upcs (master j) ix rs))" by blast
  have "length (map_upcs (master j) ix rs) = length rs"
    by (simp add: map_upcs_def split: option.splits)
  with s(3) have "csv_rows c = map (fill_quantity ix) (map_upcs (master j) ix rs)
                @ replicate (100 - length rs) (replicate (length (csv_headers c)) (PStr ''''))"
    by (simp add: pad_rows_eq)
  with s(1,2) show ?thesis by blast
qed



text \<open>
  C9. In every row of the file that is written, the quantity cell is the integer 1 exactly
  when the item cell is populated (neither None, nor the empty string, nor NA); in every
  other row the quantity cell is the empty string.
\<close>

theorem quantity_one_iff_item_populated:
  assumes "process_excel_file j = Saved c"
    and "resolve_indices (csv_headers c) = Some ix"
    and "row \<in> set (csv_rows c)"
  shows "(row ! quantity_index ix = PInt 1
            \<longleftrightarrow> row ! material_index ix \<notin> set [PNone, PStr '''', PStr ''NA''])
    \<and> (row ! material_index ix \<in> set [PNone, PStr '''', PStr ''NA'']
            \<longrightarrow> row ! quantity_index ix = PStr '''')"
proof -
  from csv_rows_split [OF assms(1)] assms(2) obtain fdf rs where
    b: "build_rows (length (csv_headers c)) ix fdf = Inr rs"
    and rows: "csv_rows c = map (fill_quantity ix) (map_upcs (master j) ix rs)
                @ replicate (100 - length rs) (replicate (length (csv_headers c)) (PStr ''''))"
    by auto
  note bd = resolve_indices_bounds [OF assms(2)]
  from assms(3) rows consider
    "row \<in> set (map (fill_quantity ix) (map_upcs (master j) ix rs))"
    | "row = replicate (length (csv_headers c)) (PStr '''')"
    by auto
  then show ?thesis
  proof cases
    case 1
    from data_row_cells [OF assms(2) b 1] obtain k where
      "row ! material_index ix = PStr (show_int k)" "row ! quantity_index ix = PInt 1" by blast
    with show_int_populated [of k] show ?thesis by simp
  next
    case 2
    with bd(1,4) show ?thesis by simp
  qed
qed

theorem quantity_one_iff_item_populated_witness:
  "process_excel_file ex_job = Saved ex_csv
   \<and> resolve_indices (csv_headers ex_csv) = Some ex_ix
   \<and> csv_rows ex_csv ! 0 \<in> set (csv_rows ex_csv)
   \<and> csv_rows ex_csv ! 0 ! quantity_index ex_ix = PInt 1
   \<and> csv_rows ex_csv ! 0 ! material_index ex_ix = PStr ''22''
   \<and> csv_rows ex_csv ! 2 \<in> set (csv_rows ex_csv)
   \<and> csv_rows ex_csv ! 2 ! quantity_index ex_ix = PStr ''''
   \<and> csv_rows ex_csv ! 2 ! material_index ex_ix = PStr ''''"
proof -
  have r: "resolve_indices (csv_headers ex_csv) = Some ex_ix"
    using ex_resolve by (simp add: ex_csv_def)
  have m0: "csv_rows ex_csv ! 0 \<in> set (csv_rows ex_csv)" by (simp add: ex_csv_def)
  have m2: "csv_rows ex_csv ! 2 \<in> set (csv_rows ex_csv)"
    by (simp add: ex_csv_def replicate_num)
  have c0: "csv_rows ex_csv ! 0 ! material_index ex_ix = PStr ''22''"
    by (simp add: ex_csv_def ex_ix_def)
  have c2: "csv_rows ex_csv ! 2 ! material_index ex_ix = PStr ''''"
    by (simp add: ex_csv_def ex_ix_def replicate_num)
  from quantity_one_iff_item_populated [OF ex_job_saved r m0] c0
  have q0: "csv_rows ex_csv ! 0 ! quantity_index ex_ix = PInt 1" by simp
  from quantity_one_iff_item_populated [OF ex_job_saved r m2] c2
  have q2: "csv_rows ex_csv ! 2 ! quantity_index ex_ix = PStr ''''" by simp
  from ex_job_saved r m0 m2 c0 c2 q0 q2 show ?thesis by blast
qed

subsection \<open>The upload handler\<close>

text \<open>
  C2, amended. With both files in the request, a job that ends by one of the four logged
  early returns (required columns not found, companion PDF missing, amount not extracted,
  template headers missing) is answered with status 200 and the success message; the
  answer is status 500 carrying the exception exactly when an exception leaves the
  pipeline. The four conditions below are the ones under which the pipeline returns early.
\<close>

theorem early_return_answered_with_success:
  "(has_excel req \<and> has_pdf req \<and> process_excel_file j = Returned a
      \<longrightarrow> process_invoice req j = (200, Message ''Files processed successfully!''))
   \<and> (has_excel req \<and> has_pdf req
      \<longrightarrow> (process_invoice req j = (500, ErrorProcessing e) \<longleftrightarrow> process_excel_file j = Raised e))
   \<and> (excel j = Some sh \<and> find_header sh 0 = None
      \<longrightarrow> process_excel_file j = Returned RequiredColumnsNotFound)
   \<and> (excel j = Some sh \<and> find_header sh 0 = Some (k, df0) \<and> prepare df0 = Inr df
       \<and> pdf j = None
      \<longrightarrow> process_excel_file j = Returned PdfNotFound)
   \<and> (excel j = Some sh \<and> find_header sh 0 = Some (k, df0) \<and> prepare df0 = Inr df
       \<and> pdf j = Some p \<and> extract_invoice_amount p = Inl x
      \<longrightarrow> process_excel_file j = Returned (AmountExtractionFailed x))
   \<and> (excel j = Some sh \<and> find_header sh 0 = Some (k, df0) \<and> prepare df0 = Inr df
       \<and> pdf j = Some p \<and> extract_invoice_amount p = Inr t \<and> final_df df t = Inr fdf
       \<and> template j = Some wb \<and> template_headers wb = Inr hs \<and> resolve_indices hs = None
      \<longrightarrow> process_excel_file j = Returned TemplateHeadersNotFound)"
proof (intro conjI impI)
  assume "has_excel req \<and> has_pdf req \<and> process_excel_file j = Returned a"
  then show "process_invoice req j = (200, Message ''Files processed successfully!'')"
    by (simp add: process_invoice_def)
next
  assume "has_excel req \<and> has_pdf req"
  then show "process_invoice req j = (500, ErrorProcessing e) \<longleftrightarrow> process_excel_file j = Raised e"
    by (cases "process_excel_file j") (simp_all add: process_invoice_def)
next
  assume "excel j = Some sh \<and> find_header sh 0 = None"
  then show "process_excel_file j = Returned RequiredColumnsNotFound"
    by (simp add: process_excel_file_def)
next
  assume "excel j = Some sh \<and> find_header sh 0 = Some (k, df0) \<and> prepare df0 = Inr df
       \<and> pdf j = None"
  then show "process_excel_file j = Returned PdfNotFound"
    by (simp add: process_excel_file_def)
next
  assume "excel j = Some sh \<and> find_header sh 0 = Some (k, df0) \<and> prepare df0 = Inr df
       \<and> pdf j = Some p \<and> extract_invoice_amount p = Inl x"
  then show "process_excel_file j = Returned (AmountExtractionFailed x)"
    by (simp add: process_excel_file_def)
next
  assume "excel j = Some sh \<and> find_header sh 0 = Some (k, df0) \<and> prepare df0 = Inr df
       \<and> pdf j = Some p \<and> extract_invoice_amount p = Inr t \<and> final_df df t = Inr fdf
       \<and> template j = Some wb \<and> template_headers wb = Inr hs \<and> resolve_indices hs = None"
  then show "process_excel_file j = Returned TemplateHeadersNotFound"
    by (simp add: process_excel_file_def)
qed

theorem early_return_answered_with_success_witness:
  "process_excel_file (ex_job\<lparr>pdf := None\<rparr>) = Returned PdfNotFound
   \<and> process_invoice ex_request (ex_job\<lparr>pdf := None\<rparr>)
       = (200, Message ''Files processed successfully!'')
   \<and> process_excel_file (ex_job\<lparr>template := None\<rparr>) = Raised ReadError
   \<and> process_invoice ex_request (ex_job\<lparr>template := None\<rparr>) = (500, ErrorProcessing ReadError)"
proof -
  have h: "has_excel ex_request \<and> has_pdf ex_request" by (simp add: ex_request_def)
  from h ex_job_no_pdf have h1: "has_excel ex_request \<and> has_pdf ex_request
      \<and> process_excel_file (ex_job\<lparr>pdf := None\<rparr>) = Returned PdfNotFound" by simp
  note a = early_return_answered_with_success
    [of ex_request "ex_job\<lparr>pdf := None\<rparr>" PdfNotFound ReadError "[]" 0
       "\<lparr>columns = [], rows = []\<rparr>" "[]" Unreadable ReadError 0 "[]" "[]" "[]",
     THEN conjunct1, THEN mp, OF h1]
  note b = early_return_answered_with_success
    [of ex_request "ex_job\<lparr>template := None\<rparr>" PdfNotFound ReadError "[]" 0
       "\<lparr>columns = [], rows = []\<rparr>" "[]" Unreadable ReadError 0 "[]" "[]" "[]",
     THEN conjunct2, THEN conjunct1, THEN mp, OF h]
  from a b ex_job_no_pdf ex_job_no_template show ?thesis by simp
qed

theorem job_failure_counterexample:
  "has_excel ex_request \<and> has_pdf ex_request
   \<and> process_excel_file (ex_job\<lparr>pdf := None\<rparr>) = Returned PdfNotFound
   \<and> process_invoice ex_request (ex_job\<lparr>pdf := None\<rparr>)
       = (200, Message ''Files processed successfully!'')
   \<and> fst (process_invoice ex_request (ex_job\<lparr>pdf := None\<rparr>)) \<noteq> 500"
  using ex_job_no_pdf by (simp add: process_invoice_def ex_request_def)

subsection \<open>The lookup keeps the first entry of an item\<close>

lemma lookup_fold_first:
  "foldl (\<lambda>d (u, i). d(i \<mapsto> u)) d0 (drop_duplicates seen rs) k
     = (if k \<in> set seen then d0 k
        else (case map_of (map (\<lambda>(u, i). (i, u)) rs) k of Some u \<Rightarrow> Some u | None \<Rightarrow> d0 k))"
proof (induction rs arbitrary: seen d0)
  case Nil
  then show ?case by simp
next
  case (Cons r rs)
  obtain u i where r: "r = (u, i)" by (cases r)
  show ?case
  proof (cases "i \<in> set seen")
    case True
    with Cons.IH [of d0 seen] r show ?thesis by auto
  next
    case False
    with Cons.IH [of "d0(i \<mapsto> u)" "i # seen"] r show ?thesis
      by (auto split: option.splits)
  qed
qed

lemma load_lookup_first:
  "load_lookup master_rows k
     = map_of (map (\<lambda>(u, i). (strip (astype_str i), strip (astype_str u))) master_rows) k"
proof -
  let ?clean = "map (\<lambda>(u, i). (strip (astype_str u), strip (astype_str i))) master_rows"
  have e: "map (\<lambda>(u, i). (i, u)) ?clean
      = map (\<lambda>(u, i). (strip (astype_str i), strip (astype_str u))) master_rows"
    by (induction master_rows) auto
  have "load_lookup master_rows k
      = (case map_of (map (\<lambda>(u, i). (i, u)) ?clean) k of Some u \<Rightarrow> Some u | None \<Rightarrow> None)"
    unfolding load_lookup_def lookup_fold_first by simp
  also have "\<dots> = map_of (map (\<lambda>(u, i). (i, u)) ?clean) k"
    by (cases "map_of (map (\<lambda>(u, i). (i, u)) ?clean) k") simp_all
  finally show ?thesis unfolding e .
qed

subsection \<open>The UPC column\<close>


lemma zfill_long: "w \<le> length s \<Longrightarrow> zfill w s = s"
  by (simp add: zfill_def)







subsection \<open>A master file that cannot be read\<close>

lemma map_upcs_length: "length (map_upcs m ix rs) = length rs"
  by (simp add: map_upcs_def split: option.splits)

lemma saved_without_master:
  assumes "process_excel_file j = Saved c'"
  shows "\<exists>c. process_excel_file (j\<lparr>master := None\<rparr>) = Saved c
           \<and> csv_headers c = csv_headers c' \<and> length (csv_rows c) = length (csv_rows c')"
  using assms unfolding process_excel_file_def
  by (auto split: option.splits sum.splits prod.splits if_splits
      simp: pad_rows_eq map_upcs_length)

text \<open>
  C5, amended. A job that writes its file with the master file at hand writes it as well
  when the master file cannot be read: same header, same number of rows. In the file of a
  job whose master file could not be read, the UPC cell of every row is the empty string
  (it is not the text NA).
\<close>

theorem master_failure_leaves_upc_blank:
  "(process_excel_file j = Saved c'
      \<longrightarrow> (\<exists>c. process_excel_file (j\<lparr>master := None\<rparr>) = Saved c
             \<and> csv_headers c = csv_headers c' \<and> length (csv_rows c) = length (csv_rows c')))
   \<and> (master j = None \<and> process_excel_file j = Saved c
       \<and> resolve_indices (csv_headers c) = Some ix
      \<longrightarrow> (\<forall>row \<in> set (csv_rows c). row ! upc_index ix = PStr ''''))"
proof (intro conjI impI ballI)
  assume "process_excel_file j = Saved c'"
  then show "\<exists>c. process_excel_file (j\<lparr>master := None\<rparr>) = Saved c
             \<and> csv_headers c = csv_headers c' \<and> length (csv_rows c) = length (csv_rows c')"
    by (rule saved_without_master)
next
  fix row
  assume a: "master j = None \<and> process_excel_file j = Saved c
       \<and> resolve_indices (csv_headers c) = Some ix"
    and row: "row \<in> set (csv_rows c)"
  then have hs: "resolve_indices (csv_headers c) = Some ix" and m: "master j = None"
    and s: "process_excel_file j = Saved c" by simp_all
  from csv_rows_split [OF s] hs obtain fdf rs where
    b: "build_rows (length (csv_headers c)) ix fdf = Inr rs"
    and rows: "csv_rows c = map (fill_quantity ix) (map_upcs (master j) ix rs)
                @ replicate (100 - length rs) (replicate (length (csv_headers c)) (PStr ''''))"
    by auto
  note bd = resolve_indices_bounds [OF hs]
  note ds = resolve_indices_distinct [OF hs]
  from row rows m consider r0 where "r0 \<in> set rs" "row = fill_quantity ix r0"
    | "row = replicate (length (csv_headers c)) (PStr '''')"
    by (auto simp: map_upcs_def)
  then show "row ! upc_index ix = PStr ''''"
  proof cases
    case 1
    from build_rows_cells [OF hs b 1(1)] have "r0 ! upc_index ix = PStr ''''" by blast
    with 1(2) ds(6) show ?thesis by (simp add: fill_quantity_other)
  next
    case 2
    with bd(3) show ?thesis by simp
  qed
qed

theorem master_failure_leaves_upc_blank_witness:
  "process_excel_file ex_job = Saved ex_csv
   \<and> process_excel_file (ex_job\<lparr>master := None\<rparr>) = Saved ex_csv_no_master
   \<and> length (csv_rows ex_csv_no_master) = length (csv_rows ex_csv)
   \<and> csv_rows ex_csv_no_master ! 0 ! upc_index ex_ix = PStr ''''"
proof -
  let ?j = "ex_job\<lparr>master := None\<rparr>"
  from master_failure_leaves_upc_blank [of ex_job ex_csv ex_csv_no_master ex_ix,
      THEN conjunct1, THEN mp, OF ex_job_saved] ex_job_no_master_saved
  have l: "length (csv_rows ex_csv_no_master) = length (csv_rows ex_csv)" by auto
  have h: "master ?j = None \<and> process_excel_file ?j = Saved ex_csv_no_master
       \<and> resolve_indices (csv_headers ex_csv_no_master) = Some ex_ix"
    using ex_job_no_master_saved ex_resolve by (simp add: ex_csv_no_master_def)
  have m0: "csv_rows ex_csv_no_master ! 0 \<in> set (csv_rows ex_csv_no_master)"
    by (simp add: ex_csv_no_master_def)
  from master_failure_leaves_upc_blank [of ?j ex_csv ex_csv_no_master ex_ix,
      THEN conjunct2, THEN mp, OF h] m0
  have "csv_rows ex_csv_no_master ! 0 ! upc_index ex_ix = PStr ''''" by blast
  with ex_job_saved ex_job_no_master_saved l show ?thesis by blast
qed

text \<open>
  The claim as it was made fails on the example job without its master file: the UPC cell
  of the first row is the empty string, which is not the text NA.
\<close>

theorem master_failure_counterexample:
  "master (ex_job\<lparr>master := None\<rparr>) = None
   \<and> process_excel_file (ex_job\<lparr>master := None\<rparr>) = Saved ex_csv_no_master
   \<and> csv_rows ex_csv_no_master ! 0 ! material_index ex_ix = PStr ''22''
   \<and> csv_rows ex_csv_no_master ! 0 ! upc_index ex_ix = PStr ''''
   \<and> csv_rows ex_csv_no_master ! 0 ! upc_index ex_ix \<noteq> PStr ''NA''"
  using ex_job_no_master_saved by (simp add: ex_csv_no_master_def ex_ix_def)

subsection \<open>Grouping\<close>




lemma group_keys_set: "set (group_keys df) = grp_key ` set df"
  by (simp add: group_keys_def)

lemma group_keys_distinct: "distinct (group_keys df)"
  by (simp add: group_keys_def)

lemma groupby_sum_keys: "groupby_sum df = Inr grouped \<Longrightarrow> map fst grouped = group_keys df"
  by (auto simp: groupby_sum_def comp_def split: if_splits)






subsection \<open>Shares of a total that is zero\<close>

lemma allocate_entry:
  "g \<in> set (allocate grouped t) \<Longrightarrow>
   (gkey g, net_sum g) \<in> set grouped
   \<and> percentage g = fdiv (net_sum g) (sum_list (map snd grouped))
   \<and> allocated g = fmul (percentage g) t"
  by (auto simp: allocate_def)

lemma allocate_length: "length (allocate grouped t) = length grouped"
  by (simp add: allocate_def)






subsection \<open>Rounding to two decimals\<close>








subsection \<open>The allocated amounts\<close>











subsection \<open>The first row of a stable sort\<close>







subsection \<open>The representative material\<close>













subsection \<open>The merge keeps every group once\<close>

lemma filter_distinct_key:
  "distinct (map fst xs) \<Longrightarrow> (k, v) \<in> set xs \<Longrightarrow> filter (\<lambda>t. fst t = k) xs = [(k, v)]"
proof (induction xs)
  case Nil
  then show ?case by simp
next
  case (Cons x xs)
  show ?case
  proof (cases "fst x = k")
    case True
    from True Cons.prems(1) have nk: "k \<notin> fst ` set xs" by auto
    then have "(k, v) \<notin> set xs" by force
    with Cons.prems(2) have "x = (k, v)" by simp
    moreover from nk have "filter (\<lambda>t. fst t = k) xs = []"
      by (auto simp: filter_empty_conv)
    ultimately show ?thesis by simp
  next
    case False
    with Cons show ?thesis by auto
  qed
qed

lemma top_materials_keys:
  "map fst (top_materials df) = group_keys (sort_key (\<lambda>r. net_desc_rank (net_amt r)) df)"
  by (simp add: top_materials_def Let_def comp_def)

lemma merge_on_key_groups:
  assumes "distinct (map fst tops)" and "\<forall>g \<in> set gs. gkey g \<in> fst ` set tops"
  shows "map fst (merge_on_key gs tops) = gs"
  using assms(2)
proof (induction gs)
  case Nil
  then show ?case by (simp add: merge_on_key_def)
next
  case (Cons g gs)
  from Cons.prems obtain v where "(gkey g, v) \<in> set tops" by force
  from filter_distinct_key [OF assms(1) this]
  have "filter (\<lambda>t. fst t = gkey g) tops = [(gkey g, v)]" .
  moreover from Cons have "map fst (merge_on_key gs tops) = gs" by simp
  ultimately show ?case by (simp add: merge_on_key_def)
qed

lemma final_df_groups:
  assumes "groupby_sum df = Inr grouped" and "final_df df t = Inr fdf"
  shows "map fst fdf = allocate grouped t"
    and "(g, m) \<in> set fdf \<Longrightarrow> (gkey g, m) \<in> set (top_materials df)"
proof -
  from assms have fdf: "fdf = merge_on_key (allocate grouped t) (top_materials df)"
    by (simp add: final_df_def)
  have d: "distinct (map fst (top_materials df))"
    by (simp add: top_materials_keys group_keys_distinct)
  have k: "fst ` set (top_materials df) = grp_key ` set df"
    using top_materials_keys [of df]
    by (metis group_keys_set list.set_map set_sort)
  have "\<forall>g \<in> set (allocate grouped t). gkey g \<in> fst ` set (top_materials df)"
  proof
    fix g assume "g \<in> set (allocate grouped t)"
    from allocate_entry [OF this] have "gkey g \<in> fst ` set grouped" by force
    also have "fst ` set grouped = set (group_keys df)"
      using groupby_sum_keys [OF assms(1)] by (metis list.set_map)
    finally show "gkey g \<in> fst ` set (top_materials df)" by (simp add: k group_keys_set)
  qed
  from merge_on_key_groups [OF d this] fdf show "map fst fdf = allocate grouped t" by simp
  show "(gkey g, m) \<in> set (top_materials df)" if "(g, m) \<in> set fdf"
    using that unfolding fdf merge_on_key_def by auto
qed

end
